theory Spec2Isabelle
  imports Complex_Main
begin

text \<open>
  The tool layer of the ReAct agent example: the execution state that travels in the
  context between the callbacks and the tool (\<^verbatim>\<open>ToolExecutionState\<close>,
  \<^verbatim>\<open>GetToolState\<close>, \<^verbatim>\<open>SetToolState\<close>), the wrapper \<^verbatim>\<open>safeTool\<close> that turns
  the errors of a tool into text, the two example tools, and the callbacks of
  \<^verbatim>\<open>LoggerCallback\<close> with the goroutine that drains the output stream of the chat
  model. Functions are pure: whatever the Go code reads or writes (the states behind
  pointers, standard output, a stream reader) is passed in and returned.
\<close>

section \<open>Errors\<close>

text \<open>
  A Go \<^verbatim>\<open>error\<close> is a value with an \<^verbatim>\<open>Error()\<close> method; it may wrap another
  error. \<open>io_EOF\<close> is the sentinel \<^verbatim>\<open>io.EOF\<close>, \<open>errorString\<close> an error that is
  only its message (\<^verbatim>\<open>errors.New\<close>, \<^verbatim>\<open>fmt.Errorf\<close> without \<^verbatim>\<open>%w\<close>, the
  errors of \<^verbatim>\<open>encoding/json\<close>), \<open>wrapError\<close> an error with a message of its own
  around an inner error. A nil error is \<open>None\<close> of \<open>error option\<close>.
\<close>

datatype error = io_EOF | errorString string | wrapError string error

fun Error :: "error \<Rightarrow> string" where
  "Error io_EOF = ''EOF''"
| "Error (errorString msg) = msg"
| "Error (wrapError msg inner) = msg"

text \<open>\<^verbatim>\<open>errors.Is\<close>: the error itself or one of the errors it wraps is the target.\<close>

fun errors_Is :: "error \<Rightarrow> error \<Rightarrow> bool" where
  "errors_Is (wrapError msg inner) target =
     (wrapError msg inner = target \<or> errors_Is inner target)"
| "errors_Is err target = (err = target)"

section \<open>The world: tool states on the heap, standard output\<close>

text \<open>
  \<^verbatim>\<open>type ToolExecutionState struct { Success bool }\<close>. The program only handles
  pointers to it, so the states live in a heap: \<open>cells\<close> maps an address to the state
  stored there and \<open>allocated\<close> is the next fresh address. A pointer is
  \<open>nat option\<close>, with \<open>None\<close> the nil pointer. \<open>stdout\<close> collects what
  \<^verbatim>\<open>fmt.Printf\<close> has written, one entry for each call.
\<close>

record ToolExecutionState =
  Success :: bool

record world =
  cells :: "nat \<Rightarrow> ToolExecutionState"
  allocated :: nat
  stdout :: "string list"

definition new_ToolExecutionState :: "ToolExecutionState \<Rightarrow> world \<Rightarrow> nat \<times> world" where
  "new_ToolExecutionState v w =
     (allocated w, w\<lparr>cells := (cells w)(allocated w := v), allocated := Suc (allocated w)\<rparr>)"

text \<open>The assignment \<^verbatim>\<open>state.Success = b\<close> through a non-nil pointer.\<close>

definition set_Success :: "nat \<Rightarrow> bool \<Rightarrow> world \<Rightarrow> world" where
  "set_Success a b w = w\<lparr>cells := (cells w)(a := (cells w a)\<lparr>Success := b\<rparr>)\<rparr>"

definition Printf :: "string \<Rightarrow> world \<Rightarrow> world" where
  "Printf s w = w\<lparr>stdout := stdout w @ [s]\<rparr>"

definition newline :: string where
  "newline = [CHR 0x0A]"

section \<open>Contexts\<close>

text \<open>
  A \<^verbatim>\<open>context.Context\<close> is a chain of values: \<^verbatim>\<open>context.WithValue(parent, key, val)\<close>
  puts a node in front of \<open>parent\<close>, which stays as it is, and \<^verbatim>\<open>ctx.Value(key)\<close>
  walks the chain from the newest node and returns the first value stored under the
  key, or the nil interface when no node has it. A stored value is an \<^verbatim>\<open>any\<close>:
  the nil interface, a \<^verbatim>\<open>*ToolExecutionState\<close> (which may be the nil pointer), or a
  value of some other type.
\<close>

datatype ctx_key = toolStateKey | other_key string

datatype any = nil | ToolExecutionState_ptr "nat option" | other_value string

datatype Context = Background | WithValue (parent_of: Context) (bound_key: ctx_key) (bound_val: any)

fun Value :: "Context \<Rightarrow> ctx_key \<Rightarrow> any" where
  "Value Background key = nil"
| "Value (WithValue parent k v) key = (if key = k then v else Value parent key)"

definition GetToolState :: "Context \<Rightarrow> nat option" where
  "GetToolState ctx =
     (case Value ctx toolStateKey of
        nil \<Rightarrow> None
      | ToolExecutionState_ptr state \<Rightarrow> state
      | other_value x \<Rightarrow> None)"

definition SetToolState :: "Context \<Rightarrow> nat option \<Rightarrow> Context" where
  "SetToolState ctx state = WithValue ctx toolStateKey (ToolExecutionState_ptr state)"

section \<open>safeTool\<close>

text \<open>
  A \<^verbatim>\<open>tool.InvokableTool\<close> is used through its method
  \<^verbatim>\<open>InvokableRun(ctx, argumentsInJSON, opts...) (string, error)\<close>; it may read and
  write the world. Go returns both the string and the error, so the result is a pair.
\<close>

typedecl tool_Option

type_synonym InvokableTool =
  "Context \<Rightarrow> string \<Rightarrow> tool_Option list \<Rightarrow> world \<Rightarrow> (string \<times> error option) \<times> world"

definition safeTool_InvokableRun ::
  "InvokableTool \<Rightarrow> Context \<Rightarrow> string \<Rightarrow> tool_Option list \<Rightarrow> world
     \<Rightarrow> (string \<times> error option) \<times> world" where
  "safeTool_InvokableRun s ctx argumentsInJSON opts w =
     (case s ctx argumentsInJSON opts w of
        ((out, e), w1) \<Rightarrow>
          let state = GetToolState ctx;
              w2 = (case state of
                      None \<Rightarrow> w1
                    | Some a \<Rightarrow> set_Success a (e = None) w1)
          in (case e of
                Some err \<Rightarrow> ((Error err, None), w2)
              | None \<Rightarrow> ((out, None), w2)))"

section \<open>The example tools\<close>

text \<open>
  The two tools decode their arguments with \<^verbatim>\<open>json.Unmarshal\<close>, ask the backend
  (\<^verbatim>\<open>fakeService\<close>) and encode the answer with \<^verbatim>\<open>json.Marshal\<close>. The JSON
  library and the backend are not part of the files verified here, so they enter as
  parameters: \<open>json_Unmarshal\<close> gives the decoded struct or the decode error, the
  backend methods and \<open>json_Marshal\<close> give Go's pair of a value and an error. An
  absent \<^verbatim>\<open>topn\<close> leaves the field at Go's zero value, \<open>Topn = 0\<close>. No arithmetic
  is done on \<open>Topn\<close>, so its machine width plays no role and it is an \<open>int\<close>.
\<close>

record QueryRestaurantsParam =
  Location :: string
  Topn :: int

record Restaurant =
  ID :: string
  Name :: string
  Place :: string
  Desc :: string
  Score :: int

record QueryDishesParam =
  RestaurantID :: string
  Topn :: int

record Dish =
  Name :: string
  Desc :: string
  Price :: int
  Score :: int

text \<open>
  \<^verbatim>\<open>json.Marshal\<close> of the map with the keys \<^verbatim>\<open>error\<close>, \<^verbatim>\<open>message\<close> and
  \<^verbatim>\<open>retry\<close>: an object with the keys in sorted order.
\<close>

definition errorJSON :: string where
  "errorJSON =
     ''{\"error\":\"service temporarily unavailable\",'' @
     ''\"message\":\"The restaurant service is temporarily unavailable. Please retry later.\",'' @
     ''\"retry\":\"true\"}''"

text \<open>
  \<open>rand_Float32\<close> is the number drawn by \<^verbatim>\<open>rand.Float32()\<close> after seeding from
  the clock: a float32 in the interval from 0 to 1, hence a rational, and 0.5 is a
  float32 too, so the comparison is exact.
\<close>

definition ToolQueryRestaurants_InvokableRun ::
  "(string \<Rightarrow> error + QueryRestaurantsParam) \<Rightarrow> rat
     \<Rightarrow> (Context \<Rightarrow> QueryRestaurantsParam \<Rightarrow> world \<Rightarrow> (Restaurant list \<times> error option) \<times> world)
     \<Rightarrow> (Restaurant list \<Rightarrow> string \<times> error option)
     \<Rightarrow> InvokableTool" where
  "ToolQueryRestaurants_InvokableRun json_Unmarshal rand_Float32 QueryRestaurants json_Marshal
       ctx argumentsInJSON opts w =
     (case json_Unmarshal argumentsInJSON of
        Inl err \<Rightarrow> (('''', Some err), w)
      | Inr p0 \<Rightarrow>
          let p = (if QueryRestaurantsParam.Topn p0 = 0
                   then p0\<lparr>QueryRestaurantsParam.Topn := 3\<rparr> else p0)
          in if rand_Float32 < 1 / 2
             then (('''', Some (errorString errorJSON)), w)
             else (case QueryRestaurants ctx p w of
                     ((rests, Some err), w1) \<Rightarrow> (('''', Some err), w1)
                   | ((rests, None), w1) \<Rightarrow>
                       (case json_Marshal rests of
                          (res, Some err) \<Rightarrow> (('''', Some err), w1)
                        | (res, None) \<Rightarrow> ((res, None), w1))))"

definition ToolQueryDishes_InvokableRun ::
  "(string \<Rightarrow> error + QueryDishesParam)
     \<Rightarrow> (Context \<Rightarrow> QueryDishesParam \<Rightarrow> world \<Rightarrow> (Dish list \<times> error option) \<times> world)
     \<Rightarrow> (Dish list \<Rightarrow> string \<times> error option)
     \<Rightarrow> InvokableTool" where
  "ToolQueryDishes_InvokableRun json_Unmarshal QueryDishes json_Marshal
       ctx argumentsInJSON opts w =
     (case json_Unmarshal argumentsInJSON of
        Inl err \<Rightarrow> (('''', Some err), w)
      | Inr p0 \<Rightarrow>
          let p = (if QueryDishesParam.Topn p0 = 0
                   then p0\<lparr>QueryDishesParam.Topn := 5\<rparr> else p0)
          in (case QueryDishes ctx p w of
                ((rests, Some err), w1) \<Rightarrow> (('''', Some err), w1)
              | ((rests, None), w1) \<Rightarrow>
                  (case json_Marshal rests of
                     (res, Some err) \<Rightarrow> (('''', Some err), w1)
                   | (res, None) \<Rightarrow> ((res, None), w1))))"

text \<open>The tools as the agent gets them: each wrapped in \<open>safeTool\<close>.\<close>

definition GetRestaurantTool ::
  "(string \<Rightarrow> error + QueryRestaurantsParam) \<Rightarrow> rat
     \<Rightarrow> (Context \<Rightarrow> QueryRestaurantsParam \<Rightarrow> world \<Rightarrow> (Restaurant list \<times> error option) \<times> world)
     \<Rightarrow> (Restaurant list \<Rightarrow> string \<times> error option)
     \<Rightarrow> InvokableTool" where
  "GetRestaurantTool json_Unmarshal rand_Float32 QueryRestaurants json_Marshal =
     safeTool_InvokableRun
       (ToolQueryRestaurants_InvokableRun json_Unmarshal rand_Float32 QueryRestaurants json_Marshal)"

definition GetDishTool ::
  "(string \<Rightarrow> error + QueryDishesParam)
     \<Rightarrow> (Context \<Rightarrow> QueryDishesParam \<Rightarrow> world \<Rightarrow> (Dish list \<times> error option) \<times> world)
     \<Rightarrow> (Dish list \<Rightarrow> string \<times> error option)
     \<Rightarrow> InvokableTool" where
  "GetDishTool json_Unmarshal QueryDishes json_Marshal =
     safeTool_InvokableRun (ToolQueryDishes_InvokableRun json_Unmarshal QueryDishes json_Marshal)"

section \<open>Callback values of the framework\<close>

text \<open>
  The callbacks get a \<^verbatim>\<open>callbacks.RunInfo\<close> and an input, an output or a stream of
  outputs of type \<^verbatim>\<open>any\<close>. \<^verbatim>\<open>components.Component\<close> is a string type.
\<close>

record RunInfo =
  Name :: string
  Type :: string
  Component :: string

definition ComponentOfTool :: string where
  "ComponentOfTool = ''Tool''"

definition ComponentOfChatModel :: string where
  "ComponentOfChatModel = ''ChatModel''"

record tool_CallbackInput =
  ArgumentsInJSON :: string

record tool_CallbackOutput =
  Response :: string

record schema_Message =
  Role :: string
  Content :: string

record model_CallbackOutput =
  Message :: "schema_Message option"

definition schema_Assistant :: string where
  "schema_Assistant = ''assistant''"

text \<open>
  The dynamic types a callback value has in this program: a pointer (maybe nil) to a
  callback struct of the tool or model package or to a message, a string, or anything
  else.
\<close>

datatype callback_any =
    tool_CallbackInput_ptr "tool_CallbackInput option"
  | tool_CallbackOutput_ptr "tool_CallbackOutput option"
  | model_CallbackOutput_ptr "model_CallbackOutput option"
  | schema_Message_ptr "schema_Message option"
  | string_value string
  | other_type

text \<open>
  The conversions \<^verbatim>\<open>tool.ConvCallbackInput\<close>, \<^verbatim>\<open>tool.ConvCallbackOutput\<close> and
  \<^verbatim>\<open>model.ConvCallbackOutput\<close> belong to the framework. The callbacks below take the
  conversion as a parameter; these three definitions are the framework's type
  switches, for running the callbacks on concrete values. Each returns the pointer it
  is given when the type is the package's own struct, wraps a string (a message) in a
  new struct, and returns nil for every other type.
\<close>

fun tool_ConvCallbackInput :: "callback_any \<Rightarrow> tool_CallbackInput option" where
  "tool_ConvCallbackInput (tool_CallbackInput_ptr t) = t"
| "tool_ConvCallbackInput (string_value t) = Some \<lparr>ArgumentsInJSON = t\<rparr>"
| "tool_ConvCallbackInput src = None"

fun tool_ConvCallbackOutput :: "callback_any \<Rightarrow> tool_CallbackOutput option" where
  "tool_ConvCallbackOutput (tool_CallbackOutput_ptr t) = t"
| "tool_ConvCallbackOutput (string_value t) = Some \<lparr>Response = t\<rparr>"
| "tool_ConvCallbackOutput src = None"

fun model_ConvCallbackOutput :: "callback_any \<Rightarrow> model_CallbackOutput option" where
  "model_ConvCallbackOutput (model_CallbackOutput_ptr t) = t"
| "model_ConvCallbackOutput (schema_Message_ptr t) = Some \<lparr>Message = t\<rparr>"
| "model_ConvCallbackOutput src = None"

section \<open>Stream readers\<close>

text \<open>
  A \<^verbatim>\<open>*schema.StreamReader\<close> is used through \<^verbatim>\<open>Recv()\<close>, which returns the next
  frame or an error (\<^verbatim>\<open>io.EOF\<close> at the end of the stream), and \<^verbatim>\<open>Close()\<close>.
  \<open>recv_seq sr n\<close> is what the call number \<open>n\<close> of \<open>Recv\<close> returns, so a stream may
  go on forever; \<open>received\<close> counts the calls of \<open>Recv\<close> made so far and \<open>closes\<close>
  the calls of \<open>Close\<close>.
\<close>

record 'f StreamReader =
  recv_seq :: "nat \<Rightarrow> error + 'f"
  received :: nat
  closes :: nat

definition Recv :: "'f StreamReader \<Rightarrow> (error + 'f) \<times> 'f StreamReader" where
  "Recv sr = (recv_seq sr (received sr), sr\<lparr>received := Suc (received sr)\<rparr>)"

definition Close :: "'f StreamReader \<Rightarrow> 'f StreamReader" where
  "Close sr = sr\<lparr>closes := Suc (closes sr)\<rparr>"

text \<open>A reader that has not been used, over the frames of a list followed by EOF.\<close>

definition reader_of :: "(error + 'f) list \<Rightarrow> 'f StreamReader" where
  "reader_of xs =
     \<lparr>recv_seq = (\<lambda>n. if n < length xs then xs ! n else Inl io_EOF),
      received = 0, closes = 0\<rparr>"

section \<open>LoggerCallback\<close>

definition LoggerCallback_OnStart ::
  "('i \<Rightarrow> tool_CallbackInput option) \<Rightarrow> Context \<Rightarrow> RunInfo \<Rightarrow> 'i \<Rightarrow> world
     \<Rightarrow> Context \<times> world" where
  "LoggerCallback_OnStart ConvCallbackInput ctx info input w =
     (if Component info = ComponentOfTool
      then (case ConvCallbackInput input of
              Some tci \<Rightarrow>
                (case new_ToolExecutionState \<lparr>Success = False\<rparr>
                        (Printf (''[TOOL] '' @ RunInfo.Name info @ '': '' @ ArgumentsInJSON tci
                                   @ newline) w) of
                   (state, w1) \<Rightarrow> (SetToolState ctx (Some state), w1))
            | None \<Rightarrow> (ctx, w))
      else (ctx, w))"

definition LoggerCallback_OnEnd ::
  "('o \<Rightarrow> tool_CallbackOutput option) \<Rightarrow> Context \<Rightarrow> RunInfo \<Rightarrow> 'o \<Rightarrow> world
     \<Rightarrow> Context \<times> world" where
  "LoggerCallback_OnEnd ConvCallbackOutput ctx info output w =
     (if Component info = ComponentOfTool
      then (case ConvCallbackOutput output of
              Some tco \<Rightarrow>
                let responseStr = Response tco;
                    responseStr = (if length responseStr > 200
                                   then take 200 responseStr @ ''...'' else responseStr);
                    w1 = Printf (''[TOOL] '' @ RunInfo.Name info @ '': result = '' @ responseStr
                                   @ newline) w
                in (case GetToolState ctx of
                      Some state \<Rightarrow>
                        if Success (cells w1 state)
                        then (ctx, Printf (''[TOOL] '' @ RunInfo.Name info
                                             @ '': execution succeeded'' @ newline) w1)
                        else (ctx, Printf (''[TOOL] '' @ RunInfo.Name info
                                             @ '': execution failed'' @ newline) w1)
                    | None \<Rightarrow> (ctx, w1))
            | None \<Rightarrow> (ctx, w))
      else (ctx, w))"

text \<open>The verb \<^verbatim>\<open>%v\<close> prints an error as its message, and a nil error as \<^verbatim>\<open><nil>\<close>.\<close>

definition LoggerCallback_OnError ::
  "Context \<Rightarrow> RunInfo \<Rightarrow> error option \<Rightarrow> world \<Rightarrow> Context \<times> world" where
  "LoggerCallback_OnError ctx info err w =
     (ctx, Printf (''[ERROR] ['' @ Component info @ '':'' @ Type info @ '':'' @ RunInfo.Name info
                     @ ''] '' @ (case err of None \<Rightarrow> ''<nil>'' | Some e \<Rightarrow> Error e) @ newline) w)"

definition LoggerCallback_OnStartWithStreamInput ::
  "Context \<Rightarrow> RunInfo \<Rightarrow> 'f StreamReader \<Rightarrow> Context \<times> 'f StreamReader" where
  "LoggerCallback_OnStartWithStreamInput ctx info input = (ctx, Close input)"

text \<open>
  The loop of the goroutine in \<^verbatim>\<open>OnEndWithStreamOutput\<close>. It ends at the first
  error that \<open>Recv\<close> returns: silently when the error is \<^verbatim>\<open>io.EOF\<close>, with a line
  on standard output otherwise. On a stream that never returns an error it does not
  end, and the value is \<open>None\<close>.
\<close>

partial_function (option) recv_loop ::
  "('f \<Rightarrow> model_CallbackOutput option) \<Rightarrow> 'f StreamReader \<Rightarrow> world
     \<Rightarrow> ('f StreamReader \<times> world) option" where
  "recv_loop ConvCallbackOutput output w =
     (case Recv output of
        (Inl err, output1) \<Rightarrow>
          if errors_Is err io_EOF then Some (output1, w)
          else Some (output1,
                     Printf (''[ERROR] failed to recv from stream: '' @ Error err @ newline) w)
      | (Inr frame, output1) \<Rightarrow>
          recv_loop ConvCallbackOutput output1
            (case ConvCallbackOutput frame of
               Some cbo \<Rightarrow>
                 (case Message cbo of
                    Some m \<Rightarrow>
                      if Content m \<noteq> ''''
                      then Printf (schema_Assistant @ '': '' @ Content m @ newline) w
                      else w
                  | None \<Rightarrow> w)
             | None \<Rightarrow> w))"

text \<open>
  The body of the goroutine: the loop, and the deferred \<^verbatim>\<open>output.Close()\<close> when
  the function returns, by \<^verbatim>\<open>break\<close> or by \<^verbatim>\<open>return\<close>.
\<close>

definition drain_goroutine ::
  "('f \<Rightarrow> model_CallbackOutput option) \<Rightarrow> 'f StreamReader \<Rightarrow> world
     \<Rightarrow> ('f StreamReader \<times> world) option" where
  "drain_goroutine ConvCallbackOutput output w =
     (case recv_loop ConvCallbackOutput output w of
        None \<Rightarrow> None
      | Some (output1, w1) \<Rightarrow> Some (Close output1, w1))"

text \<open>
  \<^verbatim>\<open>OnEndWithStreamOutput\<close> returns its context at once. For a chat model it starts
  the goroutine, which is the only reader of \<open>output\<close>; for any other component it
  closes the stream itself. The second component of the result is the reader and the
  world once everything the callback started has finished, and \<open>None\<close> when the
  goroutine never finishes. When the goroutine is scheduled is not modelled.
\<close>

definition LoggerCallback_OnEndWithStreamOutput ::
  "('f \<Rightarrow> model_CallbackOutput option) \<Rightarrow> Context \<Rightarrow> RunInfo \<Rightarrow> 'f StreamReader \<Rightarrow> world
     \<Rightarrow> Context \<times> ('f StreamReader \<times> world) option" where
  "LoggerCallback_OnEndWithStreamOutput ConvCallbackOutput ctx info output w =
     (if Component info = ComponentOfChatModel
      then (ctx, drain_goroutine ConvCallbackOutput output w)
      else (ctx, Some (Close output, w)))"


section \<open>What the callbacks print, and what a drain should forward\<close>

text \<open>The lines the callbacks write, named for the statements below.\<close>

definition result_line :: "RunInfo \<Rightarrow> string \<Rightarrow> string" where
  "result_line info response =
     ''[TOOL] '' @ RunInfo.Name info @ '': result = ''
       @ (if length response > 200 then take 200 response @ ''...'' else response) @ newline"

definition outcome_line :: "RunInfo \<Rightarrow> bool \<Rightarrow> string" where
  "outcome_line info ok =
     ''[TOOL] '' @ RunInfo.Name info
       @ (if ok then '': execution succeeded'' else '': execution failed'') @ newline"

definition recv_error_line :: "error \<Rightarrow> string" where
  "recv_error_line err = ''[ERROR] failed to recv from stream: '' @ Error err @ newline"

definition assistant_line :: "string \<Rightarrow> string" where
  "assistant_line content = schema_Assistant @ '': '' @ content @ newline"

text \<open>
  The specification of the drain, in its own words: a frame is recognized as assistant
  content when the conversion accepts it and it carries a message; the frames
  forwarded are the recognized ones with non-empty content, in stream order.
\<close>

definition assistant_content :: "('f \<Rightarrow> model_CallbackOutput option) \<Rightarrow> 'f \<Rightarrow> string option" where
  "assistant_content conv frame =
     (case conv frame of
        None \<Rightarrow> None
      | Some cbo \<Rightarrow> (case Message cbo of None \<Rightarrow> None | Some m \<Rightarrow> Some (Content m)))"

definition forwarded :: "('f \<Rightarrow> model_CallbackOutput option) \<Rightarrow> 'f list \<Rightarrow> string list" where
  "forwarded conv frames =
     filter (\<lambda>content. content \<noteq> '''') (List.map_filter (assistant_content conv) frames)"

text \<open>
  The part of both \<^verbatim>\<open>InvokableRun\<close> methods that follows the backend call: the
  backend's error is returned as it is, its answer is encoded.
\<close>

definition encode_answer ::
  "('r \<Rightarrow> string \<times> error option) \<Rightarrow> ('r \<times> error option) \<times> world
     \<Rightarrow> (string \<times> error option) \<times> world" where
  "encode_answer json_Marshal answer =
     (case answer of
        ((rests, Some err), w1) \<Rightarrow> (('''', Some err), w1)
      | ((rests, None), w1) \<Rightarrow>
          (case json_Marshal rests of
             (res, Some err) \<Rightarrow> (('''', Some err), w1)
           | (res, None) \<Rightarrow> ((res, None), w1)))"

text \<open>A context on whose chain some node binds the state key.\<close>

fun bound_on_lineage :: "Context \<Rightarrow> bool" where
  "bound_on_lineage Background = False"
| "bound_on_lineage (WithValue parent k v) = (k = toolStateKey \<or> bound_on_lineage parent)"

text \<open>What the next \<open>n\<close> calls of \<open>Recv\<close> on a reader return, in order.\<close>

definition next_results :: "'f StreamReader \<Rightarrow> nat \<Rightarrow> (error + 'f) list" where
  "next_results sr n = map (\<lambda>i. recv_seq sr (received sr + i)) [0..<n]"

section \<open>Example values\<close>

text \<open>
  Concrete inputs on which the statements below are run: an empty world, the two
  capabilities of the scenarios (one answers, one is unavailable), run infos for a tool
  and for a chat model, and streams of frames.
\<close>

definition w0 :: world where
  "w0 = \<lparr>cells = (\<lambda>a. \<lparr>Success = False\<rparr>), allocated = 0, stdout = []\<rparr>"

definition tool_42_items :: InvokableTool where
  "tool_42_items ctx argumentsInJSON opts w = ((''42 items'', None), w)"

definition tool_unavailable :: InvokableTool where
  "tool_unavailable ctx argumentsInJSON opts w = (('''', Some (errorString ''unavailable'')), w)"

definition tool_info :: RunInfo where
  "tool_info = \<lparr>Name = ''query_restaurants'', Type = '''', Component = ComponentOfTool\<rparr>"

definition model_info :: RunInfo where
  "model_info = \<lparr>Name = ''ChatModel'', Type = ''DeepSeek'', Component = ComponentOfChatModel\<rparr>"

definition content_frame :: "string \<Rightarrow> callback_any" where
  "content_frame c = schema_Message_ptr (Some \<lparr>Role = schema_Assistant, Content = c\<rparr>)"

definition frames_A_empty_B :: "callback_any list" where
  "frames_A_empty_B = [content_frame ''A'', content_frame '''', content_frame ''B'']"

definition stream_broken :: "callback_any StreamReader" where
  "stream_broken =
     reader_of [Inr (content_frame ''A''), Inl (errorString ''connection reset''),
                Inr (content_frame ''B'')]"

text \<open>
  A decoder for the examples. It agrees with \<^verbatim>\<open>json.Unmarshal\<close> on the argument
  strings used below: two well-formed objects, without and with \<^verbatim>\<open>topn\<close>, and
  the malformed \<^verbatim>\<open>{not json\<close>, whose syntax error it returns for every other
  string as well.
\<close>

definition example_Unmarshal :: "string \<Rightarrow> error + QueryRestaurantsParam" where
  "example_Unmarshal s =
     (if s = ''{\"location\":\"beijing\"}''
      then Inr \<lparr>Location = ''beijing'', QueryRestaurantsParam.Topn = 0\<rparr>
      else if s = ''{\"location\":\"beijing\",\"topn\":2}''
      then Inr \<lparr>Location = ''beijing'', QueryRestaurantsParam.Topn = 2\<rparr>
      else Inl (errorString
                  ''invalid character 'n' looking for beginning of object key string''))"

definition example_Unmarshal_dishes :: "string \<Rightarrow> error + QueryDishesParam" where
  "example_Unmarshal_dishes s =
     (if s = ''{\"restaurant_id\":\"1001\"}''
      then Inr \<lparr>RestaurantID = ''1001'', QueryDishesParam.Topn = 0\<rparr>
      else if s = ''{\"restaurant_id\":\"1001\",\"topn\":2}''
      then Inr \<lparr>RestaurantID = ''1001'', QueryDishesParam.Topn = 2\<rparr>
      else Inl (errorString
                  ''invalid character 'n' looking for beginning of object key string''))"

text \<open>
  Backends for the examples: each answers with as many entries as \<open>Topn\<close> asks for,
  so the answer shows the parameter the backend got. The example encoder writes the
  names of the entries, separated by semicolons.
\<close>

definition example_QueryRestaurants ::
  "Context \<Rightarrow> QueryRestaurantsParam \<Rightarrow> world \<Rightarrow> (Restaurant list \<times> error option) \<times> world" where
  "example_QueryRestaurants ctx p w =
     ((map (\<lambda>n. \<lparr>ID = n, Restaurant.Name = n, Place = Location p, Restaurant.Desc = '''', Restaurant.Score = 5\<rparr>)
         (take (nat (QueryRestaurantsParam.Topn p)) [''r1'', ''r2'', ''r3'', ''r4'', ''r5'', ''r6'']),
       None), w)"

definition example_QueryDishes ::
  "Context \<Rightarrow> QueryDishesParam \<Rightarrow> world \<Rightarrow> (Dish list \<times> error option) \<times> world" where
  "example_QueryDishes ctx p w =
     ((map (\<lambda>n. \<lparr>Dish.Name = n, Dish.Desc = '''', Price = 10, Dish.Score = 5\<rparr>)
         (take (nat (QueryDishesParam.Topn p)) [''d1'', ''d2'', ''d3'', ''d4'', ''d5'', ''d6'']),
       None), w)"

definition example_Marshal_restaurants :: "Restaurant list \<Rightarrow> string \<times> error option" where
  "example_Marshal_restaurants rests = (concat (map (\<lambda>r. Restaurant.Name r @ '';'') rests), None)"

definition example_Marshal_dishes :: "Dish list \<Rightarrow> string \<times> error option" where
  "example_Marshal_dishes dishes = (concat (map (\<lambda>d. Dish.Name d @ '';'') dishes), None)"

section \<open>safeTool: results and recorded outcome\<close>

lemma safeTool_result:
  assumes "s ctx args opts w = ((out, e), w1)"
  shows "fst (safeTool_InvokableRun s ctx args opts w) =
           (case e of Some err \<Rightarrow> (Error err, None) | None \<Rightarrow> (out, None))"
  using assms by (simp add: safeTool_InvokableRun_def Let_def split: option.splits)

lemma safeTool_world:
  assumes "s ctx args opts w = ((out, e), w1)"
  shows "snd (safeTool_InvokableRun s ctx args opts w) =
           (case GetToolState ctx of None \<Rightarrow> w1 | Some a \<Rightarrow> set_Success a (e = None) w1)"
  using assms by (simp add: safeTool_InvokableRun_def Let_def split: option.splits)

lemma GetToolState_SetToolState [simp]: "GetToolState (SetToolState ctx state) = state"
  by (simp add: GetToolState_def SetToolState_def)

lemma GetToolState_Background [simp]: "GetToolState Background = None"
  by (simp add: GetToolState_def)

lemma cells_set_Success:
  "cells (set_Success a b w) c = (if c = a then (cells w a)\<lparr>Success := b\<rparr> else cells w c)"
  by (simp add: set_Success_def)

lemma set_Success_same:
  assumes "Success (cells w a) = b"
  shows "set_Success a b w = w"
proof -
  have "(cells w a)\<lparr>Success := b\<rparr> = cells w a"
    using assms by simp
  then have "(cells w)(a := (cells w a)\<lparr>Success := b\<rparr>) = cells w"
    by (simp add: fun_upd_idem)
  then show ?thesis
    by (simp add: set_Success_def)
qed

text \<open>
  Claim C1. Whenever the wrapped capability returns an error, \<open>safeTool\<close> returns the
  message of that error as its string together with a nil error; and whatever the
  capability returns, the error that \<open>safeTool\<close> returns is nil.
\<close>

theorem safeTool_downgrades_error:
  assumes "s ctx args opts w = ((out, Some err), w1)"
  shows "fst (safeTool_InvokableRun s ctx args opts w) = (Error err, None)
         \<and> (\<forall>s' ctx' args' opts' w'.
               snd (fst (safeTool_InvokableRun s' ctx' args' opts' w')) = None)"
proof
  show "fst (safeTool_InvokableRun s ctx args opts w) = (Error err, None)"
    using safeTool_result[of s ctx args opts w out "Some err" w1] assms by simp
next
  show "\<forall>s' ctx' args' opts' w'. snd (fst (safeTool_InvokableRun s' ctx' args' opts' w')) = None"
  proof (intro allI)
    fix s' :: InvokableTool and ctx' args' opts' w'
    obtain out' e' w1' where run: "s' ctx' args' opts' w' = ((out', e'), w1')"
      by (metis prod.exhaust)
    show "snd (fst (safeTool_InvokableRun s' ctx' args' opts' w')) = None"
      using safeTool_result[of s' ctx' args' opts' w' out' e' w1'] run by (simp split: option.splits)
  qed
qed

theorem safeTool_downgrades_error_witness:
  "tool_unavailable Background ''{}'' [] w0 = (('''', Some (errorString ''unavailable'')), w0)
   \<and> fst (safeTool_InvokableRun tool_unavailable Background ''{}'' [] w0) = (''unavailable'', None)"
proof -
  have run: "tool_unavailable Background ''{}'' [] w0
               = (('''', Some (errorString ''unavailable'')), w0)"
    by (simp add: tool_unavailable_def)
  from safeTool_downgrades_error
         [of tool_unavailable Background "''{}''" "[]" w0 "''''" "errorString ''unavailable''" w0]
       run
  show ?thesis
    by simp
qed

text \<open>
  Claim C2. After \<open>safeTool\<close> has run on a context that binds a state, the
  \<open>Success\<close> field of that state is true exactly when the wrapped capability
  returned no error, and no other state has been written by the wrapper. On a context
  with no state the wrapper writes nothing: the world is as the capability left it, and
  the call returns its string with a nil error.
\<close>

theorem safeTool_records_outcome:
  assumes "s ctx args opts w = ((out, e), w1)"
  shows "(\<forall>a. GetToolState ctx = Some a \<longrightarrow>
            Success (cells (snd (safeTool_InvokableRun s ctx args opts w)) a) = (e = None)
            \<and> (\<forall>b. b \<noteq> a \<longrightarrow>
                  cells (snd (safeTool_InvokableRun s ctx args opts w)) b = cells w1 b)
            \<and> stdout (snd (safeTool_InvokableRun s ctx args opts w)) = stdout w1)
         \<and> (GetToolState ctx = None \<longrightarrow>
              safeTool_InvokableRun s ctx args opts w =
                ((case e of Some err \<Rightarrow> Error err | None \<Rightarrow> out, None), w1))"
proof (intro conjI allI impI)
  fix a
  assume bound: "GetToolState ctx = Some a"
  have after: "snd (safeTool_InvokableRun s ctx args opts w) = set_Success a (e = None) w1"
    using safeTool_world[of s ctx args opts w out e w1] assms bound by simp
  show "Success (cells (snd (safeTool_InvokableRun s ctx args opts w)) a) = (e = None)"
    by (simp add: after cells_set_Success)
  show "stdout (snd (safeTool_InvokableRun s ctx args opts w)) = stdout w1"
    by (simp add: after set_Success_def)
  fix b
  assume "b \<noteq> a"
  then show "cells (snd (safeTool_InvokableRun s ctx args opts w)) b = cells w1 b"
    by (simp add: after cells_set_Success)
next
  assume absent: "GetToolState ctx = None"
  have "fst (safeTool_InvokableRun s ctx args opts w) =
          (case e of Some err \<Rightarrow> Error err | None \<Rightarrow> out, None)"
    using safeTool_result[of s ctx args opts w out e w1] assms by (simp split: option.splits)
  moreover have "snd (safeTool_InvokableRun s ctx args opts w) = w1"
    using safeTool_world[of s ctx args opts w out e w1] assms absent by simp
  ultimately show "safeTool_InvokableRun s ctx args opts w =
                     ((case e of Some err \<Rightarrow> Error err | None \<Rightarrow> out, None), w1)"
    by (simp add: prod_eq_iff)
qed

theorem safeTool_records_outcome_witness:
  "Success (cells (snd (safeTool_InvokableRun tool_42_items
                          (SetToolState Background (Some 0)) ''{}'' [] w0)) 0)
   \<and> \<not> Success (cells (snd (safeTool_InvokableRun tool_unavailable
                              (SetToolState Background (Some 0)) ''{}'' []
                              (set_Success 0 True w0))) 0)
   \<and> cells (snd (safeTool_InvokableRun tool_42_items
                   (SetToolState Background (Some 0)) ''{}'' [] w0)) 1 = cells w0 1
   \<and> safeTool_InvokableRun tool_42_items Background ''{}'' [] w0 = ((''42 items'', None), w0)
   \<and> safeTool_InvokableRun tool_unavailable Background ''{}'' [] w0
       = ((''unavailable'', None), w0)"
proof -
  have ok: "tool_42_items ctx ''{}'' [] w = ((''42 items'', None), w)" for ctx w
    by (simp add: tool_42_items_def)
  have bad: "tool_unavailable ctx ''{}'' [] w = (('''', Some (errorString ''unavailable'')), w)"
    for ctx w
    by (simp add: tool_unavailable_def)
  show ?thesis
    using
      safeTool_records_outcome
        [of tool_42_items "SetToolState Background (Some 0)" "''{}''" "[]" w0
            "''42 items''" None w0]
      safeTool_records_outcome
        [of tool_unavailable "SetToolState Background (Some 0)" "''{}''" "[]"
            "set_Success 0 True w0" "''''" "Some (errorString ''unavailable'')"
            "set_Success 0 True w0"]
      safeTool_records_outcome
        [of tool_42_items Background "''{}''" "[]" w0 "''42 items''" None w0]
      safeTool_records_outcome
        [of tool_unavailable Background "''{}''" "[]" w0 "''''"
            "Some (errorString ''unavailable'')" w0]
      ok bad
    by simp
qed

section \<open>Decode failures\<close>

lemma safeTool_on_error:
  assumes "s ctx args opts w = ((out, Some err), w1)"
  shows "safeTool_InvokableRun s ctx args opts w =
           ((Error err, None),
            case GetToolState ctx of None \<Rightarrow> w1 | Some a \<Rightarrow> set_Success a False w1)"
  using assms by (simp add: safeTool_InvokableRun_def Let_def split: option.splits)

text \<open>
  Claim C3, as the code has it. When the decoder rejects the arguments, the tool itself
  returns the decode error as a non-nil error and leaves the world alone; the tool the
  agent gets is wrapped in \<open>safeTool\<close>, which turns this error into text like any
  other: its caller gets the message of the decode error with a nil error. The bound
  state has \<open>Success\<close> set to false, so a state that still had its initial value false
  keeps it, and nothing else changes.
\<close>

theorem decode_failure_is_downgraded:
  "(json_Unmarshal args = Inl err \<longrightarrow>
      ToolQueryRestaurants_InvokableRun json_Unmarshal draw QueryRestaurants json_Marshal
          ctx args opts w = (('''', Some err), w)
      \<and> GetRestaurantTool json_Unmarshal draw QueryRestaurants json_Marshal ctx args opts w
          = ((Error err, None),
             case GetToolState ctx of None \<Rightarrow> w | Some a \<Rightarrow> set_Success a False w)
      \<and> (\<forall>a. GetToolState ctx = Some a \<and> \<not> Success (cells w a) \<longrightarrow>
             snd (GetRestaurantTool json_Unmarshal draw QueryRestaurants json_Marshal
                    ctx args opts w) = w))
   \<and> (json_Unmarshal_d args = Inl err \<longrightarrow>
      ToolQueryDishes_InvokableRun json_Unmarshal_d QueryDishes json_Marshal_d
          ctx args opts w = (('''', Some err), w)
      \<and> GetDishTool json_Unmarshal_d QueryDishes json_Marshal_d ctx args opts w
          = ((Error err, None),
             case GetToolState ctx of None \<Rightarrow> w | Some a \<Rightarrow> set_Success a False w)
      \<and> (\<forall>a. GetToolState ctx = Some a \<and> \<not> Success (cells w a) \<longrightarrow>
             snd (GetDishTool json_Unmarshal_d QueryDishes json_Marshal_d ctx args opts w) = w))"
proof (intro conjI impI)
  assume rejected: "json_Unmarshal args = Inl err"
  let ?tool = "ToolQueryRestaurants_InvokableRun json_Unmarshal draw QueryRestaurants json_Marshal"
  show tool: "?tool ctx args opts w = (('''', Some err), w)"
    using rejected by (simp add: ToolQueryRestaurants_InvokableRun_def)
  show wrapped: "GetRestaurantTool json_Unmarshal draw QueryRestaurants json_Marshal ctx args opts w
          = ((Error err, None),
             case GetToolState ctx of None \<Rightarrow> w | Some a \<Rightarrow> set_Success a False w)"
    unfolding GetRestaurantTool_def
    using safeTool_on_error[of ?tool ctx args opts w "''''" err w] tool by simp
  show "\<forall>a. GetToolState ctx = Some a \<and> \<not> Success (cells w a) \<longrightarrow>
             snd (GetRestaurantTool json_Unmarshal draw QueryRestaurants json_Marshal
                    ctx args opts w) = w"
    by (simp add: wrapped set_Success_same)
next
  assume rejected: "json_Unmarshal_d args = Inl err"
  let ?tool = "ToolQueryDishes_InvokableRun json_Unmarshal_d QueryDishes json_Marshal_d"
  show tool: "?tool ctx args opts w = (('''', Some err), w)"
    using rejected by (simp add: ToolQueryDishes_InvokableRun_def)
  show wrapped: "GetDishTool json_Unmarshal_d QueryDishes json_Marshal_d ctx args opts w
          = ((Error err, None),
             case GetToolState ctx of None \<Rightarrow> w | Some a \<Rightarrow> set_Success a False w)"
    unfolding GetDishTool_def
    using safeTool_on_error[of ?tool ctx args opts w "''''" err w] tool by simp
  show "\<forall>a. GetToolState ctx = Some a \<and> \<not> Success (cells w a) \<longrightarrow>
             snd (GetDishTool json_Unmarshal_d QueryDishes json_Marshal_d ctx args opts w) = w"
    by (simp add: wrapped set_Success_same)
qed

theorem decode_failure_is_downgraded_witness:
  "example_Unmarshal ''{not json''
     = Inl (errorString ''invalid character 'n' looking for beginning of object key string'')
   \<and> example_Unmarshal_dishes ''{not json''
     = Inl (errorString ''invalid character 'n' looking for beginning of object key string'')
   \<and> GetToolState (SetToolState Background (Some 0)) = Some 0
   \<and> \<not> Success (cells w0 0)
   \<and> GetRestaurantTool example_Unmarshal (3 / 4) example_QueryRestaurants
         example_Marshal_restaurants (SetToolState Background (Some 0)) ''{not json'' [] w0
       = ((''invalid character 'n' looking for beginning of object key string'', None), w0)
   \<and> GetDishTool example_Unmarshal_dishes example_QueryDishes
         example_Marshal_dishes (SetToolState Background (Some 0)) ''{not json'' [] w0
       = ((''invalid character 'n' looking for beginning of object key string'', None), w0)"
proof -
  have r: "example_Unmarshal ''{not json''
     = Inl (errorString ''invalid character 'n' looking for beginning of object key string'')"
    by (simp add: example_Unmarshal_def)
  have d: "example_Unmarshal_dishes ''{not json''
     = Inl (errorString ''invalid character 'n' looking for beginning of object key string'')"
    by (simp add: example_Unmarshal_dishes_def)
  have fresh: "\<not> Success (cells w0 0)"
    by (simp add: w0_def)
  have same: "set_Success 0 False w0 = w0"
    using fresh by (simp add: set_Success_same)
  show ?thesis
    using decode_failure_is_downgraded
            [of example_Unmarshal "''{not json''"
                "errorString ''invalid character 'n' looking for beginning of object key string''"
                "3 / 4" example_QueryRestaurants example_Marshal_restaurants
                "SetToolState Background (Some 0)" "[]" w0
                example_Unmarshal_dishes example_QueryDishes example_Marshal_dishes]
          r d fresh same
    by simp
qed

text \<open>
  Claim C3 as stated fails: on the malformed arguments \<^verbatim>\<open>{not json\<close> the decoder
  rejects them and the restaurant tool returns that error, but the wrapped tool, which
  is what the caller invokes, returns the text of the error with a nil error.
\<close>

theorem decode_failure_counterexample:
  "ToolQueryRestaurants_InvokableRun example_Unmarshal (3 / 4) example_QueryRestaurants
       example_Marshal_restaurants (SetToolState Background (Some 0)) ''{not json'' [] w0
     = (('''', Some (errorString
                      ''invalid character 'n' looking for beginning of object key string'')), w0)
   \<and> fst (GetRestaurantTool example_Unmarshal (3 / 4) example_QueryRestaurants
            example_Marshal_restaurants (SetToolState Background (Some 0)) ''{not json'' [] w0)
     = (''invalid character 'n' looking for beginning of object key string'', None)"
  by (simp add: GetRestaurantTool_def safeTool_InvokableRun_def
        ToolQueryRestaurants_InvokableRun_def example_Unmarshal_def)

section \<open>Binding and looking up the state\<close>

lemma Value_unbound:
  "\<not> bound_on_lineage ctx \<Longrightarrow> Value ctx toolStateKey = nil"
  by (induction ctx) auto

text \<open>
  Claim C5. \<open>SetToolState\<close> returns a context on which \<open>GetToolState\<close> yields exactly
  the state bound. The new context is a node in front of the original one, which is
  kept as it is, and every other key has the value it had. Two states allocated one
  after the other have different addresses, and for states at different addresses a
  write to one, directly or by \<open>safeTool\<close> running on the context that binds it, leaves
  the other as it was, still reachable from its own context.
\<close>

theorem SetToolState_binds_and_isolates:
  "GetToolState (SetToolState ctx state) = state
   \<and> parent_of (SetToolState ctx state) = ctx
   \<and> (\<forall>key. key \<noteq> toolStateKey \<longrightarrow> Value (SetToolState ctx state) key = Value ctx key)
   \<and> fst (new_ToolExecutionState v2 (snd (new_ToolExecutionState v1 w)))
        \<noteq> fst (new_ToolExecutionState v1 w)
   \<and> (a \<noteq> b \<longrightarrow>
        GetToolState (SetToolState ctxA (Some a)) = Some a
        \<and> GetToolState (SetToolState ctxB (Some b)) = Some b
        \<and> cells (set_Success b ok w) a = cells w a
        \<and> cells (snd (safeTool_InvokableRun s (SetToolState ctxB (Some b)) args opts w)) a
            = cells (snd (s (SetToolState ctxB (Some b)) args opts w)) a)"
proof (intro conjI impI allI)
  show "GetToolState (SetToolState ctx state) = state"
    by simp
  show "parent_of (SetToolState ctx state) = ctx"
    by (simp add: SetToolState_def)
  show "Value (SetToolState ctx state) key = Value ctx key" if "key \<noteq> toolStateKey" for key
    using that by (simp add: SetToolState_def)
  show "fst (new_ToolExecutionState v2 (snd (new_ToolExecutionState v1 w)))
          \<noteq> fst (new_ToolExecutionState v1 w)"
    by (simp add: new_ToolExecutionState_def)
next
  assume distinct: "a \<noteq> b"
  show "GetToolState (SetToolState ctxA (Some a)) = Some a"
    by simp
  show "GetToolState (SetToolState ctxB (Some b)) = Some b"
    by simp
  show "cells (set_Success b ok w) a = cells w a"
    using distinct by (simp add: cells_set_Success)
  obtain out e w1 where run: "s (SetToolState ctxB (Some b)) args opts w = ((out, e), w1)"
    by (metis prod.exhaust)
  have "snd (safeTool_InvokableRun s (SetToolState ctxB (Some b)) args opts w)
          = set_Success b (e = None) w1"
    using safeTool_world[of s "SetToolState ctxB (Some b)" args opts w out e w1] run by simp
  then show "cells (snd (safeTool_InvokableRun s (SetToolState ctxB (Some b)) args opts w)) a
               = cells (snd (s (SetToolState ctxB (Some b)) args opts w)) a"
    using distinct run by (simp add: cells_set_Success)
qed

theorem SetToolState_binds_and_isolates_witness:
  "(0::nat) \<noteq> 1
   \<and> Value (SetToolState (WithValue Background (other_key ''trace'') (other_value ''t1''))
              (Some 0)) (other_key ''trace'') = other_value ''t1''
   \<and> cells (snd (safeTool_InvokableRun tool_42_items (SetToolState Background (Some 1))
                   ''{}'' [] w0)) 0 = cells w0 0
   \<and> Success (cells (snd (safeTool_InvokableRun tool_42_items (SetToolState Background (Some 1))
                            ''{}'' [] w0)) 1)"
proof -
  have run: "tool_42_items ctx ''{}'' [] w0 = ((''42 items'', None), w0)" for ctx
    by (simp add: tool_42_items_def)
  have written: "Success (cells (snd (safeTool_InvokableRun tool_42_items
                     (SetToolState Background (Some 1)) ''{}'' [] w0)) 1)"
    by (simp add: safeTool_InvokableRun_def run cells_set_Success)
  show ?thesis
    using SetToolState_binds_and_isolates
            [of "WithValue Background (other_key ''trace'') (other_value ''t1'')" "Some 0"
                "\<lparr>Success = False\<rparr>" "\<lparr>Success = False\<rparr>" w0 0 1 Background Background True
                tool_42_items "''{}''" "[]"]
          run written
    by simp
qed

text \<open>
  Claim C6. On a context with no binding of the state key anywhere on its chain, and on
  a context where the value under the state key is not a pointer to a state (a value of
  another type, or the nil interface), \<open>GetToolState\<close> returns the nil pointer: no
  state at all, and the function has no error result.
\<close>

theorem GetToolState_absent:
  "(\<not> bound_on_lineage ctx \<longrightarrow> GetToolState ctx = None)
   \<and> (Value ctx toolStateKey = other_value x \<longrightarrow> GetToolState ctx = None)
   \<and> (Value ctx toolStateKey = nil \<longrightarrow> GetToolState ctx = None)"
  by (auto simp: GetToolState_def dest: Value_unbound)

theorem GetToolState_absent_witness:
  "\<not> bound_on_lineage (WithValue Background (other_key ''trace'') (other_value ''t1''))
   \<and> GetToolState (WithValue Background (other_key ''trace'') (other_value ''t1'')) = None
   \<and> Value (WithValue Background toolStateKey (other_value ''not a state'')) toolStateKey
       = other_value ''not a state''
   \<and> GetToolState (WithValue Background toolStateKey (other_value ''not a state'')) = None
   \<and> Value (WithValue Background toolStateKey nil) toolStateKey = nil
   \<and> GetToolState (WithValue Background toolStateKey nil) = None"
  using GetToolState_absent
          [of "WithValue Background (other_key ''trace'') (other_value ''t1'')"]
        GetToolState_absent
          [of "WithValue Background toolStateKey (other_value ''not a state'')" "''not a state''"]
        GetToolState_absent [of "WithValue Background toolStateKey nil"]
  by simp

section \<open>The default of topn\<close>

text \<open>
  Claim C10. When the arguments decode, the restaurant tool calls the backend with
  \<open>Topn\<close> replaced by 3 when it is zero (absent or given as zero), the dish tool with
  \<open>Topn\<close> replaced by 5 when it is zero, and each hands a non-zero \<open>Topn\<close> on as it
  is, the other fields untouched; what the tool returns is the encoding of the
  backend's answer to exactly this parameter. The restaurant tool calls the backend
  only when the random draw is not below one half; below, it returns its error whatever
  the backend is.
\<close>

theorem topn_defaults:
  "(json_Unmarshal args = Inr p \<longrightarrow>
      (QueryRestaurantsParam.Topn p = 0 \<and> \<not> draw < 1 / 2 \<longrightarrow>
         ToolQueryRestaurants_InvokableRun json_Unmarshal draw QueryRestaurants json_Marshal
             ctx args opts w
           = encode_answer json_Marshal
               (QueryRestaurants ctx (p\<lparr>QueryRestaurantsParam.Topn := 3\<rparr>) w))
      \<and> (QueryRestaurantsParam.Topn p \<noteq> 0 \<and> \<not> draw < 1 / 2 \<longrightarrow>
         ToolQueryRestaurants_InvokableRun json_Unmarshal draw QueryRestaurants json_Marshal
             ctx args opts w
           = encode_answer json_Marshal (QueryRestaurants ctx p w))
      \<and> (draw < 1 / 2 \<longrightarrow>
         ToolQueryRestaurants_InvokableRun json_Unmarshal draw QueryRestaurants json_Marshal
             ctx args opts w
           = (('''', Some (errorString errorJSON)), w)))
   \<and> (json_Unmarshal_d args = Inr q \<longrightarrow>
      (QueryDishesParam.Topn q = 0 \<longrightarrow>
         ToolQueryDishes_InvokableRun json_Unmarshal_d QueryDishes json_Marshal_d ctx args opts w
           = encode_answer json_Marshal_d
               (QueryDishes ctx (q\<lparr>QueryDishesParam.Topn := 5\<rparr>) w))
      \<and> (QueryDishesParam.Topn q \<noteq> 0 \<longrightarrow>
         ToolQueryDishes_InvokableRun json_Unmarshal_d QueryDishes json_Marshal_d ctx args opts w
           = encode_answer json_Marshal_d (QueryDishes ctx q w)))"
  by (simp add: ToolQueryRestaurants_InvokableRun_def ToolQueryDishes_InvokableRun_def
        encode_answer_def Let_def)

theorem topn_defaults_witness:
  "example_Unmarshal ''{\"location\":\"beijing\"}''
     = Inr \<lparr>Location = ''beijing'', QueryRestaurantsParam.Topn = 0\<rparr>
   \<and> example_Unmarshal ''{\"location\":\"beijing\",\"topn\":2}''
     = Inr \<lparr>Location = ''beijing'', QueryRestaurantsParam.Topn = 2\<rparr>
   \<and> ToolQueryRestaurants_InvokableRun example_Unmarshal (3 / 4) example_QueryRestaurants
        example_Marshal_restaurants Background ''{\"location\":\"beijing\"}'' [] w0
     = ((''r1;r2;r3;'', None), w0)
   \<and> ToolQueryRestaurants_InvokableRun example_Unmarshal (3 / 4) example_QueryRestaurants
        example_Marshal_restaurants Background ''{\"location\":\"beijing\",\"topn\":2}'' [] w0
     = ((''r1;r2;'', None), w0)
   \<and> ToolQueryRestaurants_InvokableRun example_Unmarshal (1 / 4) example_QueryRestaurants
        example_Marshal_restaurants Background ''{\"location\":\"beijing\"}'' [] w0
     = (('''', Some (errorString errorJSON)), w0)
   \<and> ToolQueryDishes_InvokableRun example_Unmarshal_dishes example_QueryDishes
        example_Marshal_dishes Background ''{\"restaurant_id\":\"1001\"}'' [] w0
     = ((''d1;d2;d3;d4;d5;'', None), w0)
   \<and> ToolQueryDishes_InvokableRun example_Unmarshal_dishes example_QueryDishes
        example_Marshal_dishes Background ''{\"restaurant_id\":\"1001\",\"topn\":2}'' [] w0
     = ((''d1;d2;'', None), w0)"
proof -
  let ?p0 = "\<lparr>Location = ''beijing'', QueryRestaurantsParam.Topn = 0\<rparr>"
  let ?p2 = "\<lparr>Location = ''beijing'', QueryRestaurantsParam.Topn = 2\<rparr>"
  let ?q0 = "\<lparr>RestaurantID = ''1001'', QueryDishesParam.Topn = 0\<rparr>"
  let ?q2 = "\<lparr>RestaurantID = ''1001'', QueryDishesParam.Topn = 2\<rparr>"
  have r0: "example_Unmarshal ''{\"location\":\"beijing\"}'' = Inr ?p0"
    by (simp add: example_Unmarshal_def)
  have r2: "example_Unmarshal ''{\"location\":\"beijing\",\"topn\":2}'' = Inr ?p2"
    by (simp add: example_Unmarshal_def)
  have d0: "example_Unmarshal_dishes ''{\"restaurant_id\":\"1001\"}'' = Inr ?q0"
    by (simp add: example_Unmarshal_dishes_def)
  have d2: "example_Unmarshal_dishes ''{\"restaurant_id\":\"1001\",\"topn\":2}'' = Inr ?q2"
    by (simp add: example_Unmarshal_dishes_def)
  have a3: "encode_answer example_Marshal_restaurants
              (example_QueryRestaurants Background (?p0\<lparr>QueryRestaurantsParam.Topn := 3\<rparr>) w0)
            = ((''r1;r2;r3;'', None), w0)"
    by (simp add: encode_answer_def example_QueryRestaurants_def example_Marshal_restaurants_def)
  have a2: "encode_answer example_Marshal_restaurants (example_QueryRestaurants Background ?p2 w0)
            = ((''r1;r2;'', None), w0)"
    by (simp add: encode_answer_def example_QueryRestaurants_def example_Marshal_restaurants_def)
  have b5: "encode_answer example_Marshal_dishes
              (example_QueryDishes Background (?q0\<lparr>QueryDishesParam.Topn := 5\<rparr>) w0)
            = ((''d1;d2;d3;d4;d5;'', None), w0)"
    by (simp add: encode_answer_def example_QueryDishes_def example_Marshal_dishes_def)
  have b2: "encode_answer example_Marshal_dishes (example_QueryDishes Background ?q2 w0)
            = ((''d1;d2;'', None), w0)"
    by (simp add: encode_answer_def example_QueryDishes_def example_Marshal_dishes_def)
  note t0 = topn_defaults
      [of example_Unmarshal "''{\"location\":\"beijing\"}''" ?p0 "3 / 4"
          example_QueryRestaurants example_Marshal_restaurants Background "[]" w0
          example_Unmarshal_dishes ?q0 example_QueryDishes example_Marshal_dishes]
  note t2 = topn_defaults
      [of example_Unmarshal "''{\"location\":\"beijing\",\"topn\":2}''" ?p2 "3 / 4"
          example_QueryRestaurants example_Marshal_restaurants Background "[]" w0
          example_Unmarshal_dishes ?q2 example_QueryDishes example_Marshal_dishes]
  note t1 = topn_defaults
      [of example_Unmarshal "''{\"location\":\"beijing\"}''" ?p0 "1 / 4"
          example_QueryRestaurants example_Marshal_restaurants Background "[]" w0
          example_Unmarshal_dishes ?q0 example_QueryDishes example_Marshal_dishes]
  note u0 = topn_defaults
      [of example_Unmarshal "''{\"restaurant_id\":\"1001\"}''" ?p0 "3 / 4"
          example_QueryRestaurants example_Marshal_restaurants Background "[]" w0
          example_Unmarshal_dishes ?q0 example_QueryDishes example_Marshal_dishes]
  note u2 = topn_defaults
      [of example_Unmarshal "''{\"restaurant_id\":\"1001\",\"topn\":2}''" ?p2 "3 / 4"
          example_QueryRestaurants example_Marshal_restaurants Background "[]" w0
          example_Unmarshal_dishes ?q2 example_QueryDishes example_Marshal_dishes]
  have c1: "ToolQueryRestaurants_InvokableRun example_Unmarshal (3 / 4) example_QueryRestaurants
        example_Marshal_restaurants Background ''{\"location\":\"beijing\"}'' [] w0
     = ((''r1;r2;r3;'', None), w0)"
    using t0 r0 a3 by simp
  have c2: "ToolQueryRestaurants_InvokableRun example_Unmarshal (3 / 4) example_QueryRestaurants
        example_Marshal_restaurants Background ''{\"location\":\"beijing\",\"topn\":2}'' [] w0
     = ((''r1;r2;'', None), w0)"
    using t2 r2 a2 by simp
  have c3: "ToolQueryRestaurants_InvokableRun example_Unmarshal (1 / 4) example_QueryRestaurants
        example_Marshal_restaurants Background ''{\"location\":\"beijing\"}'' [] w0
     = (('''', Some (errorString errorJSON)), w0)"
    using t1 r0 by simp
  have c4: "ToolQueryDishes_InvokableRun example_Unmarshal_dishes example_QueryDishes
        example_Marshal_dishes Background ''{\"restaurant_id\":\"1001\"}'' [] w0
     = ((''d1;d2;d3;d4;d5;'', None), w0)"
    using u0 d0 b5 by simp
  have c5: "ToolQueryDishes_InvokableRun example_Unmarshal_dishes example_QueryDishes
        example_Marshal_dishes Background ''{\"restaurant_id\":\"1001\",\"topn\":2}'' [] w0
     = ((''d1;d2;'', None), w0)"
    using u2 d2 b2 by simp
  show ?thesis
    using r0 r2 c1 c2 c3 c4 c5 by simp
qed

section \<open>The start and end callbacks of a tool\<close>

lemma OnStart_tool:
  assumes "Component info = ComponentOfTool" and "conv input = Some tci"
  shows "GetToolState (fst (LoggerCallback_OnStart conv ctx info input w)) = Some (allocated w)
         \<and> \<not> Success (cells (snd (LoggerCallback_OnStart conv ctx info input w)) (allocated w))
         \<and> allocated (snd (LoggerCallback_OnStart conv ctx info input w)) = Suc (allocated w)"
  using assms
  by (simp add: LoggerCallback_OnStart_def new_ToolExecutionState_def Printf_def)

lemma OnEnd_tool:
  assumes "Component info = ComponentOfTool" and "conv output = Some tco"
  shows "LoggerCallback_OnEnd conv ctx info output w =
           (ctx, w\<lparr>stdout := stdout w @ result_line info (Response tco)
                      # (case GetToolState ctx of
                           None \<Rightarrow> []
                         | Some a \<Rightarrow> [outcome_line info (Success (cells w a))])\<rparr>)"
  using assms
  by (simp add: LoggerCallback_OnEnd_def Let_def Printf_def result_line_def outcome_line_def
        split: option.splits)

text \<open>
  Claim C8, as the code has it. For a tool whose output converts to a tool callback
  output, \<open>OnEnd\<close> prints the result line and returns its context. With a state bound
  it then prints one outcome line, which says succeeded exactly when \<open>Success\<close> of
  that state is true and failed otherwise. With no state bound it prints no outcome
  line at all, neither succeeded nor failed nor anything else. When the output does
  not convert, or the component is not a tool, it prints nothing.
\<close>

theorem OnEnd_reports_outcome:
  "(Component info = ComponentOfTool \<and> conv output = Some tco \<longrightarrow>
      (\<forall>a. GetToolState ctx = Some a \<longrightarrow>
         LoggerCallback_OnEnd conv ctx info output w =
           (ctx, w\<lparr>stdout := stdout w @ [result_line info (Response tco),
                                          outcome_line info (Success (cells w a))]\<rparr>))
      \<and> (GetToolState ctx = None \<longrightarrow>
         LoggerCallback_OnEnd conv ctx info output w =
           (ctx, w\<lparr>stdout := stdout w @ [result_line info (Response tco)]\<rparr>)))
   \<and> (Component info \<noteq> ComponentOfTool \<or> conv output = None \<longrightarrow>
        LoggerCallback_OnEnd conv ctx info output w = (ctx, w))"
proof (intro conjI impI allI)
  fix a
  assume "Component info = ComponentOfTool \<and> conv output = Some tco"
    and "GetToolState ctx = Some a"
  then show "LoggerCallback_OnEnd conv ctx info output w =
           (ctx, w\<lparr>stdout := stdout w @ [result_line info (Response tco),
                                          outcome_line info (Success (cells w a))]\<rparr>)"
    by (simp add: OnEnd_tool)
next
  assume "Component info = ComponentOfTool \<and> conv output = Some tco"
    and "GetToolState ctx = None"
  then show "LoggerCallback_OnEnd conv ctx info output w =
           (ctx, w\<lparr>stdout := stdout w @ [result_line info (Response tco)]\<rparr>)"
    by (simp add: OnEnd_tool)
next
  assume "Component info \<noteq> ComponentOfTool \<or> conv output = None"
  then show "LoggerCallback_OnEnd conv ctx info output w = (ctx, w)"
    by (auto simp: LoggerCallback_OnEnd_def)
qed

theorem OnEnd_reports_outcome_witness:
  "stdout (snd (LoggerCallback_OnEnd tool_ConvCallbackOutput (SetToolState Background (Some 0))
                  tool_info (string_value ''ok'') (set_Success 0 True w0)))
     = [''[TOOL] query_restaurants: result = ok'' @ newline,
        ''[TOOL] query_restaurants: execution succeeded'' @ newline]
   \<and> stdout (snd (LoggerCallback_OnEnd tool_ConvCallbackOutput (SetToolState Background (Some 0))
                    tool_info (string_value ''unavailable'') w0))
     = [''[TOOL] query_restaurants: result = unavailable'' @ newline,
        ''[TOOL] query_restaurants: execution failed'' @ newline]
   \<and> stdout (snd (LoggerCallback_OnEnd tool_ConvCallbackOutput Background
                    tool_info (string_value ''ok'') w0))
     = [''[TOOL] query_restaurants: result = ok'' @ newline]
   \<and> LoggerCallback_OnEnd tool_ConvCallbackOutput Background tool_info other_type w0
     = (Background, w0)
   \<and> LoggerCallback_OnEnd tool_ConvCallbackOutput Background model_info (string_value ''ok'') w0
     = (Background, w0)"
proof -
  have tool: "Component tool_info = ComponentOfTool"
    by (simp add: tool_info_def)
  have model: "Component model_info \<noteq> ComponentOfTool"
    by (simp add: model_info_def ComponentOfTool_def ComponentOfChatModel_def)
  have name: "RunInfo.Name tool_info = ''query_restaurants''"
    by (simp add: tool_info_def)
  have empty: "stdout w0 = []" "stdout (set_Success 0 True w0) = []"
    by (simp_all add: w0_def set_Success_def)
  have flag: "Success (cells (set_Success 0 True w0) 0)" "\<not> Success (cells w0 0)"
    by (simp_all add: w0_def set_Success_def)
  show ?thesis
    using
      OnEnd_reports_outcome
        [of tool_info tool_ConvCallbackOutput "string_value ''ok''" "\<lparr>Response = ''ok''\<rparr>"
            "SetToolState Background (Some 0)" "set_Success 0 True w0"]
      OnEnd_reports_outcome
        [of tool_info tool_ConvCallbackOutput "string_value ''unavailable''"
            "\<lparr>Response = ''unavailable''\<rparr>" "SetToolState Background (Some 0)" w0]
      OnEnd_reports_outcome
        [of tool_info tool_ConvCallbackOutput "string_value ''ok''" "\<lparr>Response = ''ok''\<rparr>"
            Background w0]
      OnEnd_reports_outcome
        [of tool_info tool_ConvCallbackOutput other_type "\<lparr>Response = ''ok''\<rparr>" Background w0]
      OnEnd_reports_outcome
        [of model_info tool_ConvCallbackOutput "string_value ''ok''" "\<lparr>Response = ''ok''\<rparr>"
            Background w0]
      tool model name empty flag
    by (simp add: result_line_def outcome_line_def)
qed

text \<open>
  Claim C8 as stated fails in two places. With no state bound the call is not reported
  as failed or indeterminate: the result line is all that is printed. And with a state
  bound whose \<open>Success\<close> is true, an output that does not convert makes \<open>OnEnd\<close>
  print nothing, so no outcome is reported as succeeded.
\<close>

theorem OnEnd_counterexample:
  "GetToolState Background = None
   \<and> stdout (snd (LoggerCallback_OnEnd tool_ConvCallbackOutput Background tool_info
                    (string_value ''ok'') w0))
     = [''[TOOL] query_restaurants: result = ok'' @ newline]
   \<and> Success (cells (set_Success 0 True w0) 0)
   \<and> stdout (snd (LoggerCallback_OnEnd tool_ConvCallbackOutput (SetToolState Background (Some 0))
                    tool_info other_type (set_Success 0 True w0)))
     = []"
  by (simp add: LoggerCallback_OnEnd_def tool_info_def Printf_def w0_def set_Success_def)

section \<open>Draining a stream\<close>

lemma next_results_Suc:
  "next_results sr (Suc n) =
     recv_seq sr (received sr) # next_results (sr\<lparr>received := Suc (received sr)\<rparr>) n"
  unfolding next_results_def by (simp add: map_upt_Suc del: upt_Suc)

lemma next_results_reader_of:
  "next_results (reader_of xs) (Suc (length xs)) = xs @ [Inl io_EOF]"
proof -
  have "map (\<lambda>i. if i < length xs then xs ! i else Inl io_EOF) [0..<length xs]
          = map (\<lambda>i. xs ! i) [0..<length xs]"
    by (rule map_cong) auto
  then show ?thesis
    by (simp add: next_results_def reader_of_def map_nth)
qed

lemma forwarded_Nil [simp]: "forwarded conv [] = []"
  by (simp add: forwarded_def map_filter_simps)

lemma forwarded_Cons:
  "forwarded conv (f # fs) =
     (case assistant_content conv f of
        None \<Rightarrow> []
      | Some c \<Rightarrow> if c \<noteq> '''' then [c] else []) @ forwarded conv fs"
  by (simp add: forwarded_def map_filter_simps split: option.splits)

text \<open>One turn of the loop on a frame: what it adds to standard output.\<close>

lemma frame_printed:
  "(case conv f of
      Some cbo \<Rightarrow>
        (case Message cbo of
           Some m \<Rightarrow>
             if Content m \<noteq> ''''
             then Printf (schema_Assistant @ '': '' @ Content m @ newline) w
             else w
         | None \<Rightarrow> w)
    | None \<Rightarrow> w)
   = w\<lparr>stdout := stdout w @ map assistant_line (forwarded conv [f])\<rparr>"
  by (simp add: forwarded_Cons assistant_content_def assistant_line_def Printf_def
        split: option.splits)

text \<open>
  The loop on a reader whose next results are the frames \<open>fs\<close> and then an error:
  it receives exactly these, prints a line for each frame to forward, and ends at the
  error, with a line for it unless it is the end of the stream.
\<close>

lemma recv_loop_frames:
  assumes "next_results sr (Suc (length fs)) = map Inr fs @ [Inl err]"
  shows "recv_loop conv sr w =
           Some (sr\<lparr>received := received sr + Suc (length fs)\<rparr>,
                 w\<lparr>stdout := stdout w @ map assistant_line (forwarded conv fs)
                             @ (if errors_Is err io_EOF then [] else [recv_error_line err])\<rparr>)"
  using assms
proof (induction fs arbitrary: sr w)
  case Nil
  then have "recv_seq sr (received sr) = Inl err"
    by (simp add: next_results_Suc)
  then show ?case
    by (subst recv_loop.simps) (simp add: Recv_def Printf_def recv_error_line_def)
next
  case (Cons f fs)
  let ?sr = "sr\<lparr>received := Suc (received sr)\<rparr>"
  let ?w = "w\<lparr>stdout := stdout w @ map assistant_line (forwarded conv [f])\<rparr>"
  from Cons.prems have now: "recv_seq sr (received sr) = Inr f"
    and later: "next_results ?sr (Suc (length fs)) = map Inr fs @ [Inl err]"
    by (simp_all add: next_results_Suc[of sr "Suc (length fs)"])
  have "recv_loop conv sr w = recv_loop conv ?sr ?w"
    by (subst recv_loop.simps) (simp add: Recv_def now frame_printed)
  also have "\<dots> = Some (?sr\<lparr>received := received ?sr + Suc (length fs)\<rparr>,
                 ?w\<lparr>stdout := stdout ?w @ map assistant_line (forwarded conv fs)
                             @ (if errors_Is err io_EOF then [] else [recv_error_line err])\<rparr>)"
    by (rule Cons.IH[OF later])
  also have "\<dots> = Some (sr\<lparr>received := received sr + Suc (length (f # fs))\<rparr>,
                 w\<lparr>stdout := stdout w @ map assistant_line (forwarded conv (f # fs))
                             @ (if errors_Is err io_EOF then [] else [recv_error_line err])\<rparr>)"
    by (simp add: forwarded_Cons[of conv f fs] forwarded_Cons[of conv f "[]"])
  finally show ?case .
qed

text \<open>The loop neither closes the reader nor changes the stream behind it.\<close>

lemma recv_loop_keeps:
  assumes "recv_loop conv sr w = Some r"
  shows "closes (fst r) = closes sr \<and> recv_seq (fst r) = recv_seq sr"
proof (rule recv_loop.raw_induct
    [where P = "\<lambda>c s v y. closes (fst y) = closes s \<and> recv_seq (fst y) = recv_seq s", OF _ assms])
  fix loop :: "('a \<Rightarrow> model_CallbackOutput option) \<Rightarrow> 'a StreamReader \<Rightarrow> world
     \<Rightarrow> ('a StreamReader \<times> world) option"
  fix c s v y
  assume IH: "\<And>c s v y. loop c s v = Some y \<Longrightarrow>
                closes (fst y) = closes s \<and> recv_seq (fst y) = recv_seq s"
  assume step: "(case Recv s of
        (Inl err, output1) \<Rightarrow>
          if errors_Is err io_EOF then Some (output1, v)
          else Some (output1,
                     Printf (''[ERROR] failed to recv from stream: '' @ Error err @ newline) v)
      | (Inr frame, output1) \<Rightarrow>
          loop c output1
            (case c frame of
               Some cbo \<Rightarrow>
                 (case Message cbo of
                    Some m \<Rightarrow>
                      if Content m \<noteq> ''''
                      then Printf (schema_Assistant @ '': '' @ Content m @ newline) v
                      else v
                  | None \<Rightarrow> v)
             | None \<Rightarrow> v)) = Some y"
  show "closes (fst y) = closes s \<and> recv_seq (fst y) = recv_seq s"
  proof (cases "recv_seq s (received s)")
    case (Inl err)
    with step show ?thesis
      by (auto simp: Recv_def split: if_splits)
  next
    case (Inr frame)
    with step have "\<exists>v1. loop c (s\<lparr>received := Suc (received s)\<rparr>) v1 = Some y"
      by (auto simp: Recv_def)
    then obtain v1 where "loop c (s\<lparr>received := Suc (received s)\<rparr>) v1 = Some y" ..
    from IH[OF this] show ?thesis by simp
  qed
qed

text \<open>The loop ends as soon as some later call of \<open>Recv\<close> returns an error.\<close>

lemma recv_loop_returns:
  assumes "isl (recv_seq sr (received sr + n))"
  shows "\<exists>r. recv_loop conv sr w = Some r"
  using assms
proof (induction n arbitrary: sr w)
  case 0
  then obtain err where "recv_seq sr (received sr) = Inl err"
    by (auto simp: isl_def)
  then show ?case
    by (subst recv_loop.simps) (simp add: Recv_def)
next
  case (Suc n)
  show ?case
  proof (cases "recv_seq sr (received sr)")
    case (Inl err)
    then show ?thesis
      by (subst recv_loop.simps) (simp add: Recv_def)
  next
    case (Inr f)
    let ?sr = "sr\<lparr>received := Suc (received sr)\<rparr>"
    let ?w = "w\<lparr>stdout := stdout w @ map assistant_line (forwarded conv [f])\<rparr>"
    from Suc.prems have "isl (recv_seq ?sr (received ?sr + n))"
      by simp
    from Suc.IH[OF this] obtain r where "recv_loop conv ?sr ?w = Some r" ..
    moreover have "recv_loop conv sr w = recv_loop conv ?sr ?w"
      by (subst recv_loop.simps) (simp add: Recv_def Inr frame_printed)
    ultimately show ?thesis
      by simp
  qed
qed

lemma OnEndWithStreamOutput_drains:
  assumes "Component info = ComponentOfChatModel"
    and "next_results output (Suc (length fs)) = map Inr fs @ [Inl err]"
  shows "LoggerCallback_OnEndWithStreamOutput conv ctx info output w =
           (ctx, Some (output\<lparr>received := received output + Suc (length fs),
                              closes := Suc (closes output)\<rparr>,
                       w\<lparr>stdout := stdout w @ map assistant_line (forwarded conv fs)
                             @ (if errors_Is err io_EOF then [] else [recv_error_line err])\<rparr>))"
  using assms(1) recv_loop_frames[OF assms(2), of conv w]
  by (simp add: LoggerCallback_OnEndWithStreamOutput_def drain_goroutine_def Close_def)

lemma example_streams:
  "next_results (reader_of (map Inr frames_A_empty_B)) (Suc (length frames_A_empty_B))
     = map Inr frames_A_empty_B @ [Inl io_EOF]"
  "next_results stream_broken (Suc (length [content_frame ''A'']))
     = map Inr [content_frame ''A''] @ [Inl (errorString ''connection reset'')]"
  "forwarded model_ConvCallbackOutput frames_A_empty_B = [''A'', ''B'']"
  "forwarded model_ConvCallbackOutput [content_frame ''A''] = [''A'']"
  "Component model_info = ComponentOfChatModel"
  "Component tool_info \<noteq> ComponentOfChatModel"
proof -
  show "next_results (reader_of (map Inr frames_A_empty_B)) (Suc (length frames_A_empty_B))
     = map Inr frames_A_empty_B @ [Inl io_EOF]"
    using next_results_reader_of[of "map Inr frames_A_empty_B"] by simp
  show "next_results stream_broken (Suc (length [content_frame ''A'']))
     = map Inr [content_frame ''A''] @ [Inl (errorString ''connection reset'')]"
    by (simp add: next_results_def stream_broken_def reader_of_def upt_rec)
  show "forwarded model_ConvCallbackOutput frames_A_empty_B = [''A'', ''B'']"
    by (simp add: forwarded_Cons frames_A_empty_B_def content_frame_def assistant_content_def)
  show "forwarded model_ConvCallbackOutput [content_frame ''A''] = [''A'']"
    by (simp add: forwarded_Cons content_frame_def assistant_content_def)
  show "Component model_info = ComponentOfChatModel"
    by (simp add: model_info_def)
  show "Component tool_info \<noteq> ComponentOfChatModel"
    by (simp add: tool_info_def ComponentOfTool_def ComponentOfChatModel_def)
qed

text \<open>
  Claim C4. Whenever the work started by \<open>OnEndWithStreamOutput\<close> comes to an end,
  the reader has been closed exactly once more than before, whichever way the end was
  reached: the end of the stream, an error from \<open>Recv\<close> in the middle of it (the early
  return), or the branch for components other than a chat model. And it does come to
  an end whenever the component is not a chat model or some later call of \<open>Recv\<close>
  returns an error, the end of the stream included.
\<close>

theorem stream_closed_exactly_once:
  "(\<forall>output1 w1.
      snd (LoggerCallback_OnEndWithStreamOutput conv ctx info output w) = Some (output1, w1)
        \<longrightarrow> closes output1 = Suc (closes output))
   \<and> ((\<exists>n. isl (recv_seq output (received output + n))) \<or> Component info \<noteq> ComponentOfChatModel
        \<longrightarrow> (\<exists>r. snd (LoggerCallback_OnEndWithStreamOutput conv ctx info output w) = Some r))"
proof (intro conjI allI impI)
  fix output1 w1
  assume finished: "snd (LoggerCallback_OnEndWithStreamOutput conv ctx info output w)
                  = Some (output1, w1)"
  show "closes output1 = Suc (closes output)"
  proof (cases "Component info = ComponentOfChatModel")
    case True
    with finished obtain output2 where loop: "recv_loop conv output w = Some (output2, w1)"
      and closed: "output1 = Close output2"
      by (auto simp: LoggerCallback_OnEndWithStreamOutput_def drain_goroutine_def
            split: option.splits)
    from recv_loop_keeps[OF loop] have "closes output2 = closes output"
      by simp
    with closed show ?thesis
      by (simp add: Close_def)
  next
    case False
    with finished show ?thesis
      by (auto simp: LoggerCallback_OnEndWithStreamOutput_def Close_def)
  qed
next
  assume ends: "(\<exists>n. isl (recv_seq output (received output + n)))
                  \<or> Component info \<noteq> ComponentOfChatModel"
  show "\<exists>r. snd (LoggerCallback_OnEndWithStreamOutput conv ctx info output w) = Some r"
  proof (cases "Component info = ComponentOfChatModel")
    case True
    with ends obtain n where "isl (recv_seq output (received output + n))"
      by auto
    from recv_loop_returns[OF this, of conv w] obtain r where "recv_loop conv output w = Some r" ..
    with True show ?thesis
      by (auto simp: LoggerCallback_OnEndWithStreamOutput_def drain_goroutine_def
            split: prod.splits)
  next
    case False
    then show ?thesis
      by (simp add: LoggerCallback_OnEndWithStreamOutput_def)
  qed
qed

theorem stream_closed_exactly_once_witness:
  "snd (LoggerCallback_OnEndWithStreamOutput model_ConvCallbackOutput Background model_info
          (reader_of (map Inr frames_A_empty_B)) w0)
     = Some ((reader_of (map Inr frames_A_empty_B))\<lparr>received := 4, closes := 1\<rparr>,
             w0\<lparr>stdout := [assistant_line ''A'', assistant_line ''B'']\<rparr>)
   \<and> closes ((reader_of (map Inr frames_A_empty_B))\<lparr>received := 4, closes := 1\<rparr>)
       = Suc (closes (reader_of (map Inr frames_A_empty_B)))
   \<and> snd (LoggerCallback_OnEndWithStreamOutput model_ConvCallbackOutput Background model_info
            stream_broken w0)
     = Some (stream_broken\<lparr>received := 2, closes := 1\<rparr>,
             w0\<lparr>stdout := [assistant_line ''A'',
                            recv_error_line (errorString ''connection reset'')]\<rparr>)
   \<and> closes (stream_broken\<lparr>received := 2, closes := 1\<rparr>) = Suc (closes stream_broken)
   \<and> isl (recv_seq stream_broken (received stream_broken + 1))
   \<and> snd (LoggerCallback_OnEndWithStreamOutput model_ConvCallbackOutput Background tool_info
            stream_broken w0)
     = Some (stream_broken\<lparr>closes := 1\<rparr>, w0)
   \<and> closes (stream_broken\<lparr>closes := 1\<rparr>) = Suc (closes stream_broken)"
proof -
  have fresh: "received (reader_of xs) = 0" "closes (reader_of xs) = 0"
    for xs :: "(error + callback_any) list"
    by (simp_all add: reader_of_def)
  have out: "stdout w0 = []"
    by (simp add: w0_def)
  have len: "length frames_A_empty_B = 3"
    by (simp add: frames_A_empty_B_def)
  have eof: "snd (LoggerCallback_OnEndWithStreamOutput model_ConvCallbackOutput Background
                    model_info (reader_of (map Inr frames_A_empty_B)) w0)
     = Some ((reader_of (map Inr frames_A_empty_B))\<lparr>received := 4, closes := 1\<rparr>,
             w0\<lparr>stdout := [assistant_line ''A'', assistant_line ''B'']\<rparr>)"
    using OnEndWithStreamOutput_drains[OF example_streams(5) example_streams(1),
            of model_ConvCallbackOutput Background w0]
    by (simp add: example_streams(3) fresh out len)
  have broken: "snd (LoggerCallback_OnEndWithStreamOutput model_ConvCallbackOutput Background
                       model_info stream_broken w0)
     = Some (stream_broken\<lparr>received := 2, closes := 1\<rparr>,
             w0\<lparr>stdout := [assistant_line ''A'',
                            recv_error_line (errorString ''connection reset'')]\<rparr>)"
    using OnEndWithStreamOutput_drains[OF example_streams(5) example_streams(2),
            of model_ConvCallbackOutput Background w0]
    by (simp add: example_streams(4) fresh out stream_broken_def)
  have other: "snd (LoggerCallback_OnEndWithStreamOutput model_ConvCallbackOutput Background
                      tool_info stream_broken w0)
     = Some (stream_broken\<lparr>closes := 1\<rparr>, w0)"
    using example_streams(6)
    by (simp add: LoggerCallback_OnEndWithStreamOutput_def Close_def fresh stream_broken_def)
  have err: "isl (recv_seq stream_broken (received stream_broken + 1))"
    by (simp add: stream_broken_def reader_of_def)
  show ?thesis
    using
      stream_closed_exactly_once
        [of model_ConvCallbackOutput Background model_info
            "reader_of (map Inr frames_A_empty_B)" w0]
      stream_closed_exactly_once
        [of model_ConvCallbackOutput Background model_info stream_broken w0]
      stream_closed_exactly_once
        [of model_ConvCallbackOutput Background tool_info stream_broken w0]
      eof broken other err
    by (simp add: fresh stream_broken_def)
qed

text \<open>
  Claim C7. On a reader whose next results are the frames of a finite list and then
  the end of the stream, the goroutine started for a chat model receives every frame
  and the end, closes the reader, and prints one line for each frame that is
  recognized as assistant content and whose content is not empty, in the order of the
  stream; every other frame is passed over without any output. On the frames with the
  contents A, empty and B the lines printed are those of A and B, in this order.
\<close>

theorem drain_forwards_content:
  assumes "Component info = ComponentOfChatModel"
    and "next_results output (Suc (length frames)) = map Inr frames @ [Inl err]"
    and "errors_Is err io_EOF"
  shows "LoggerCallback_OnEndWithStreamOutput conv ctx info output w =
           (ctx, Some (output\<lparr>received := received output + Suc (length frames),
                              closes := Suc (closes output)\<rparr>,
                       w\<lparr>stdout := stdout w @ map assistant_line (forwarded conv frames)\<rparr>))"
  using OnEndWithStreamOutput_drains[OF assms(1) assms(2), of conv ctx w] assms(3)
  by simp

theorem drain_forwards_content_witness:
  "Component model_info = ComponentOfChatModel
   \<and> next_results (reader_of (map Inr frames_A_empty_B)) (Suc (length frames_A_empty_B))
       = map Inr frames_A_empty_B @ [Inl io_EOF]
   \<and> errors_Is io_EOF io_EOF
   \<and> map_option (\<lambda>(output1, w1). (received output1, closes output1, stdout w1))
        (snd (LoggerCallback_OnEndWithStreamOutput model_ConvCallbackOutput Background model_info
                (reader_of (map Inr frames_A_empty_B)) w0))
     = Some (4, 1, [''assistant: A'' @ newline, ''assistant: B'' @ newline])"
proof -
  have fresh: "received (reader_of xs) = 0" "closes (reader_of xs) = 0"
    for xs :: "(error + callback_any) list"
    by (simp_all add: reader_of_def)
  have out: "stdout w0 = []"
    by (simp add: w0_def)
  have len: "length frames_A_empty_B = 3"
    by (simp add: frames_A_empty_B_def)
  show ?thesis
    using drain_forwards_content
            [OF example_streams(5) example_streams(1), of model_ConvCallbackOutput Background w0]
          example_streams(1) example_streams(5)
    by (simp add: example_streams(3) fresh out len assistant_line_def schema_Assistant_def)
qed

text \<open>
  Claim C9. For a component that is not a chat model, \<open>OnEndWithStreamOutput\<close> closes
  the reader and does nothing else: no call of \<open>Recv\<close>, no output. For a chat model,
  when \<open>Recv\<close> returns an error that is not the end of the stream, the goroutine stops
  there: nothing after the error is received, the frames before it have been
  forwarded, the error is printed on a line of its own, the reader is closed, and the
  callback's result is its context, with no error handed to anyone.
\<close>

theorem drain_only_for_chat_model:
  "(Component info \<noteq> ComponentOfChatModel \<longrightarrow>
      LoggerCallback_OnEndWithStreamOutput conv ctx info output w
        = (ctx, Some (output\<lparr>closes := Suc (closes output)\<rparr>, w)))
   \<and> (Component info = ComponentOfChatModel
        \<and> next_results output (Suc (length frames)) = map Inr frames @ [Inl err]
        \<and> \<not> errors_Is err io_EOF \<longrightarrow>
      LoggerCallback_OnEndWithStreamOutput conv ctx info output w
        = (ctx, Some (output\<lparr>received := received output + Suc (length frames),
                             closes := Suc (closes output)\<rparr>,
                      w\<lparr>stdout := stdout w @ map assistant_line (forwarded conv frames)
                                    @ [recv_error_line err]\<rparr>)))"
proof (intro conjI impI)
  assume "Component info \<noteq> ComponentOfChatModel"
  then show "LoggerCallback_OnEndWithStreamOutput conv ctx info output w
               = (ctx, Some (output\<lparr>closes := Suc (closes output)\<rparr>, w))"
    by (simp add: LoggerCallback_OnEndWithStreamOutput_def Close_def)
next
  assume run: "Component info = ComponentOfChatModel
        \<and> next_results output (Suc (length frames)) = map Inr frames @ [Inl err]
        \<and> \<not> errors_Is err io_EOF"
  then have kind: "Component info = ComponentOfChatModel"
    and results: "next_results output (Suc (length frames)) = map Inr frames @ [Inl err]"
    and failure: "\<not> errors_Is err io_EOF"
    by simp_all
  show "LoggerCallback_OnEndWithStreamOutput conv ctx info output w
        = (ctx, Some (output\<lparr>received := received output + Suc (length frames),
                             closes := Suc (closes output)\<rparr>,
                      w\<lparr>stdout := stdout w @ map assistant_line (forwarded conv frames)
                                    @ [recv_error_line err]\<rparr>))"
    using OnEndWithStreamOutput_drains[OF kind results, of conv ctx w] failure
    by simp
qed

theorem drain_only_for_chat_model_witness:
  "Component tool_info \<noteq> ComponentOfChatModel
   \<and> map_option (\<lambda>(output1, w1). (received output1, closes output1, stdout w1))
        (snd (LoggerCallback_OnEndWithStreamOutput model_ConvCallbackOutput Background tool_info
                stream_broken w0))
     = Some (0, 1, [])
   \<and> Component model_info = ComponentOfChatModel
   \<and> next_results stream_broken 2
       = [Inr (content_frame ''A''), Inl (errorString ''connection reset'')]
   \<and> \<not> errors_Is (errorString ''connection reset'') io_EOF
   \<and> LoggerCallback_OnEndWithStreamOutput model_ConvCallbackOutput Background model_info
        stream_broken w0
     = (Background,
        Some (stream_broken\<lparr>received := 2, closes := 1\<rparr>,
              w0\<lparr>stdout := [''assistant: A'' @ newline,
                             ''[ERROR] failed to recv from stream: connection reset'' @ newline]\<rparr>))"
proof -
  have fresh: "received stream_broken = 0" "closes stream_broken = 0"
    by (simp_all add: stream_broken_def reader_of_def)
  have out: "stdout w0 = []"
    by (simp add: w0_def)
  show ?thesis
    using
      drain_only_for_chat_model
        [of tool_info model_ConvCallbackOutput Background stream_broken w0
            "[content_frame ''A'']" "errorString ''connection reset''"]
      drain_only_for_chat_model
        [of model_info model_ConvCallbackOutput Background stream_broken w0
            "[content_frame ''A'']" "errorString ''connection reset''"]
      example_streams(2) example_streams(5) example_streams(6)
    by (simp add: example_streams(4) fresh out assistant_line_def recv_error_line_def
          schema_Assistant_def numeral_2_eq_2)
qed

end
